theory Spec2Isabelle
  imports Main "HOL-Library.Char_ord" "HOL-Library.List_Lexorder" "HOL-Library.Multiset"
begin

section \<open>The build reporter of leeway (pkg/leeway/reporter.go)\<close>

text \<open>
  Go strings and byte slices are byte sequences: \<^typ>\<open>string\<close> (a list of 8-bit
  characters). With \<open>Char_ord\<close> and \<open>List_Lexorder\<close> the order on \<^typ>\<open>string\<close> is the
  bytewise lexicographic one, which is Go's \<open><\<close> on strings.
\<close>

abbreviation NL :: char where "NL \<equiv> CHR 0x0A"
abbreviation TAB :: char where "TAB \<equiv> CHR 0x09"

subsection \<open>What the reporter is given\<close>

text \<open>
  Modelled from the spec: the type \<open>Package\<close> is declared elsewhere in package leeway. The
  reporter uses two of its methods: \<open>FullName()\<close>, a string, and \<open>Version()\<close>, which
  returns a version or an error (\<open>Inl\<close> the error's text, \<open>Inr\<close> the version).
\<close>

record Package =
  FullName :: string
  Version :: "string + string"

text \<open>
  Modelled from the spec: \<open>PackageBuildStatus\<close> is declared elsewhere in package leeway;
  the spec gives it as the enumeration Built | Pending. The reporter only tests
  \<open>status == PackageBuilt\<close>.
\<close>

datatype PackageBuildStatus = PackageBuilt | PackagePending

text \<open>
  The libraries the reporter prints through are not part of the repository; what they
  compute is a parameter of the model:
  \<^item> \<open>Green\<close>, \<open>Yellow\<close>, \<open>Gray\<close>: gookit/color's \<open>Color.Sprint\<close>, \<open>Color.Sprintf\<close> and
    \<open>Color.Render\<close> on an already formatted text (the text wrapped in the colour's codes);
  \<^item> \<open>ReplaceTag\<close>: gookit/color's rendering of \<open><tag>...</>\<close> markup, which
    \<open>color.Printf\<close>, \<open>color.Println\<close>, \<open>color.Sprintf\<close> and \<open>color.Render\<close> apply to
    the formatted text;
  \<^item> \<open>tabwriter\<close>: what a \<open>text/tabwriter\<close> writer with the parameters of \<open>BuildStarted\<close>
    sends to its output at \<open>Flush\<close>, as a function of the text written to it.
\<close>

record ext =
  Green :: "string \<Rightarrow> string"
  Yellow :: "string \<Rightarrow> string"
  Gray :: "string \<Rightarrow> string"
  ReplaceTag :: "string \<Rightarrow> string"
  tabwriter :: "string \<Rightarrow> string"

text \<open>A terminal without colours: every style is the identity, markup is left as written.\<close>

definition no_color :: ext where
  "no_color = \<lparr>Green = (\<lambda>t. t), Yellow = (\<lambda>t. t), Gray = (\<lambda>t. t),
               ReplaceTag = (\<lambda>t. t), tabwriter = (\<lambda>t. t)\<rparr>"

subsection \<open>The sink: textio.PrefixWriter\<close>

text \<open>
  Modelled from the spec: the sink is segmentio/textio's \<open>PrefixWriter\<close>, a library outside
  the repository. The spec: every line written through a sink is prefixed with the unit's
  identity. A \<open>PrefixWriter\<close> holds its prefix (\<open>indent\<close>) and the bytes of a line that is
  not terminated yet (\<open>buffer\<close>); \<open>Write\<close> sends every line it completes, prefixed, to the
  underlying writer and keeps the unterminated tail.
\<close>

record PrefixWriter =
  indent :: string
  buffer :: string

definition NewPrefixWriter :: "string \<Rightarrow> PrefixWriter" where
  "NewPrefixWriter s = \<lparr>indent = s, buffer = []\<rparr>"

fun writeLines :: "string \<Rightarrow> string \<Rightarrow> string \<Rightarrow> string \<times> string" where
  "writeLines ind buf [] = ([], buf)"
| "writeLines ind buf (c # cs) =
     (if c = NL
      then (case writeLines ind [] cs of (out, rest) \<Rightarrow> (ind @ buf @ [NL] @ out, rest))
      else writeLines ind (buf @ [c]) cs)"

definition PrefixWriter_Write :: "PrefixWriter \<Rightarrow> string \<Rightarrow> PrefixWriter \<times> string" where
  "PrefixWriter_Write w b =
     (case writeLines (indent w) (buffer w) b of (out, rest) \<Rightarrow> (w\<lparr>buffer := rest\<rparr>, out))"

subsection \<open>The state a call runs in\<close>

text \<open>
  \<open>writer\<close> and \<open>mu\<close> are the fields of \<open>ConsoleReporter\<close>. The map holds pointers to
  sinks: \<open>heap\<close> is the store of the sinks, \<open>nxt\<close> the next address to allocate. \<open>mu\<close> is what
  the running call holds of the reader/writer lock. \<open>stdout\<close> is the bytes written to
  \<open>os.Stdout\<close> so far, \<open>logrus\<close> the debug entries logged (package field, message).
  \<open>accesses\<close> records every access to the map with the lock held at that moment.
\<close>

type_synonym addr = nat

datatype lock_mode = Unlocked | RLocked | WLocked

datatype access = MapLookup string | MapInsert string | MapDelete string

record world =
  writer :: "string \<rightharpoonup> addr"
  mu :: lock_mode
  heap :: "addr \<Rightarrow> PrefixWriter"
  nxt :: addr
  stdout :: string
  logrus :: "(string \<times> string) list"
  accesses :: "(access \<times> lock_mode) list"

definition NewConsoleReporter :: world where
  "NewConsoleReporter = \<lparr>writer = Map.empty, mu = Unlocked,
     heap = (\<lambda>a. NewPrefixWriter []), nxt = 0, stdout = [], logrus = [], accesses = []\<rparr>"

definition mu_Lock :: "world \<Rightarrow> world" where
  "mu_Lock s = s\<lparr>mu := WLocked\<rparr>"

definition mu_Unlock :: "world \<Rightarrow> world" where
  "mu_Unlock s = s\<lparr>mu := Unlocked\<rparr>"

definition mu_RLock :: "world \<Rightarrow> world" where
  "mu_RLock s = s\<lparr>mu := RLocked\<rparr>"

definition mu_RUnlock :: "world \<Rightarrow> world" where
  "mu_RUnlock s = s\<lparr>mu := Unlocked\<rparr>"

definition writer_lookup :: "string \<Rightarrow> world \<Rightarrow> addr option \<times> world" where
  "writer_lookup nme s = (writer s nme, s\<lparr>accesses := accesses s @ [(MapLookup nme, mu s)]\<rparr>)"

definition writer_insert :: "string \<Rightarrow> addr \<Rightarrow> world \<Rightarrow> world" where
  "writer_insert nme out s =
     s\<lparr>writer := (writer s)(nme \<mapsto> out), accesses := accesses s @ [(MapInsert nme, mu s)]\<rparr>"

definition writer_delete :: "string \<Rightarrow> world \<Rightarrow> world" where
  "writer_delete nme s =
     s\<lparr>writer := (writer s)(nme := None), accesses := accesses s @ [(MapDelete nme, mu s)]\<rparr>"

text \<open>\<open>textio.NewPrefixWriter(os.Stdout, prefix)\<close>: a new sink at a new address.\<close>

definition new_sink :: "string \<Rightarrow> world \<Rightarrow> addr \<times> world" where
  "new_sink prefix s =
     (nxt s, s\<lparr>heap := (heap s)(nxt s := NewPrefixWriter prefix), nxt := Suc (nxt s)\<rparr>)"

text \<open>\<open>out.Write(buf)\<close> and \<open>io.WriteString(out, msg)\<close>: the sink changes, its lines go to stdout.\<close>

definition sink_Write :: "addr \<Rightarrow> string \<Rightarrow> world \<Rightarrow> world" where
  "sink_Write out b s =
     (case PrefixWriter_Write (heap s out) b of
        (w, emitted) \<Rightarrow> s\<lparr>heap := (heap s)(out := w), stdout := stdout s @ emitted\<rparr>)"

definition os_Stdout_Write :: "string \<Rightarrow> world \<Rightarrow> world" where
  "os_Stdout_Write b s = s\<lparr>stdout := stdout s @ b\<rparr>"

definition log_Debug :: "string \<Rightarrow> string \<Rightarrow> world \<Rightarrow> world" where
  "log_Debug pkgfield msg s = s\<lparr>logrus := logrus s @ [(pkgfield, msg)]\<rparr>"

subsection \<open>ConsoleReporter\<close>

definition getRunPrefix :: "ext \<Rightarrow> Package \<Rightarrow> string" where
  "getRunPrefix x p = Gray x (''['' @ FullName p @ ''] '')"

definition version_or_unknown :: "Package \<Rightarrow> string" where
  "version_or_unknown pkg = (case Version pkg of Inl err \<Rightarrow> ''unknown'' | Inr version \<Rightarrow> version)"

definition icon_cached :: string where
  "icon_cached = [CHR 0xF0, CHR 0x9F, CHR 0x93, CHR 0xA6]"

definition icon_build :: string where
  "icon_build = [CHR 0xF0, CHR 0x9F, CHR 0x94, CHR 0xA7]"

text \<open>The body of the loop of \<open>BuildStarted\<close>: the line of one entry of the status map.\<close>

definition status_line :: "ext \<Rightarrow> Package \<times> PackageBuildStatus \<Rightarrow> string" where
  "status_line x e =
     (case e of (pkg, status) \<Rightarrow>
        (let version = version_or_unknown pkg in
         if status = PackageBuilt
         then Green x (icon_cached @ [TAB] @ ''cached'') @ [TAB] @ FullName pkg @ [TAB]
                @ Gray x (''(version '' @ version @ '')'') @ [NL]
         else Yellow x (icon_build @ [TAB] @ ''build'') @ [TAB] @ FullName pkg @ [TAB]
                @ Gray x (''(version '' @ version @ '')'') @ [NL]))"

text \<open>
  \<open>sort.Slice(lines, func(i, j) bool { return lines[i] < lines[j] })\<close>: the slice in
  ascending order. The order on strings is linear, so the ascending arrangement of the
  elements is unique and the algorithm that reaches it does not matter.
\<close>

definition sort_Slice :: "string list \<Rightarrow> string list" where
  "sort_Slice lines = sort lines"

text \<open>
  The slice \<open>lines\<close> of \<open>BuildStarted\<close> after sorting. \<open>status\<close> is the status map as the
  list of its entries in the order the \<open>range\<close> loop visits them, which Go leaves open.
\<close>

definition BuildStarted_lines :: "ext \<Rightarrow> (Package \<times> PackageBuildStatus) list \<Rightarrow> string list" where
  "BuildStarted_lines x status = sort_Slice (map (status_line x) status)"

definition ConsoleReporter_BuildStarted ::
  "ext \<Rightarrow> Package \<Rightarrow> (Package \<times> PackageBuildStatus) list \<Rightarrow> world \<Rightarrow> world" where
  "ConsoleReporter_BuildStarted x pkg status s =
     os_Stdout_Write (tabwriter x (concat (BuildStarted_lines x status) @ [NL])) s"

definition ConsoleReporter_BuildFinished :: "ext \<Rightarrow> Package \<Rightarrow> string option \<Rightarrow> world \<Rightarrow> world" where
  "ConsoleReporter_BuildFinished x pkg err s =
     (case err of
        Some e \<Rightarrow>
          os_Stdout_Write
            (ReplaceTag x (''<red>build failed</>'' @ [NL] @ ''<white>Reason:</> '' @ e @ [NL])) s
      | None \<Rightarrow> os_Stdout_Write (ReplaceTag x ([NL] @ ''<green>build succeded</>'') @ [NL]) s)"

definition ConsoleReporter_PackageBuildStarted :: "ext \<Rightarrow> Package \<Rightarrow> world \<Rightarrow> world" where
  "ConsoleReporter_PackageBuildStarted x pkg s0 =
     (let nme = FullName pkg;
          (out, s1) = new_sink (getRunPrefix x pkg) s0;
          s2 = mu_Lock s1;
          s3 = writer_insert nme out s2;
          s4 = mu_Unlock s3;
          version = version_or_unknown pkg
      in sink_Write out
           (ReplaceTag x (''<fg=yellow>build started</> <gray>(version '' @ version @ '')</>'' @ [NL]))
           s4)"

definition ConsoleReporter_PackageBuildLog ::
  "ext \<Rightarrow> Package \<Rightarrow> bool \<Rightarrow> string \<Rightarrow> world \<Rightarrow> world" where
  "ConsoleReporter_PackageBuildLog x pkg isErr buf s0 =
     (let nme = FullName pkg;
          s1 = mu_RLock s0;
          (found, s2) = writer_lookup nme s1;
          s3 = mu_RUnlock s2;
          (out, s8) =
            (case found of
               Some out \<Rightarrow> (out, s3)
             | None \<Rightarrow>
                 (let s4 = mu_Lock s3;
                      (out, s5) = new_sink (getRunPrefix x pkg) s4;
                      s6 = writer_insert nme out s5;
                      s7 = log_Debug nme ''saw build log output before the build started'' s6
                  in (out, mu_Unlock s7)))
      in sink_Write out buf s8)"

definition ConsoleReporter_PackageBuildFinished ::
  "ext \<Rightarrow> Package \<Rightarrow> string option \<Rightarrow> world \<Rightarrow> world" where
  "ConsoleReporter_PackageBuildFinished x pkg err s0 =
     (let msg = (case err of
                   None \<Rightarrow> ReplaceTag x (''<green>package build succeded</>'' @ [NL])
                 | Some e \<Rightarrow>
                     ReplaceTag x (''<red>package build failed</>'' @ [NL]
                                   @ ''<white>Reason:</> '' @ e @ [NL]));
          nme = FullName pkg;
          s1 = mu_RLock s0;
          (found, s2) = writer_lookup nme s1;
          s3 = mu_RUnlock s2;
          (out, s4) = (case found of
                         Some out \<Rightarrow> (out, s3)
                       | None \<Rightarrow> new_sink (getRunPrefix x pkg) s3);
          s5 = sink_Write out msg s4
      in writer_delete nme s5)"

subsection \<open>The Reporter interface and CompositeReporter\<close>

text \<open>
  A \<open>Reporter\<close> is a value with the five methods of the interface; a call changes the
  world \<open>'w\<close> the reporter lives in (its own state and whatever it prints to).
\<close>

record 'w Reporter =
  BuildStarted :: "Package \<Rightarrow> (Package \<times> PackageBuildStatus) list \<Rightarrow> 'w \<Rightarrow> 'w"
  BuildFinished :: "Package \<Rightarrow> string option \<Rightarrow> 'w \<Rightarrow> 'w"
  PackageBuildStarted :: "Package \<Rightarrow> 'w \<Rightarrow> 'w"
  PackageBuildLog :: "Package \<Rightarrow> bool \<Rightarrow> string \<Rightarrow> 'w \<Rightarrow> 'w"
  PackageBuildFinished :: "Package \<Rightarrow> string option \<Rightarrow> 'w \<Rightarrow> 'w"

definition ConsoleReporter :: "ext \<Rightarrow> world Reporter" where
  "ConsoleReporter x =
     \<lparr>BuildStarted = ConsoleReporter_BuildStarted x,
      BuildFinished = ConsoleReporter_BuildFinished x,
      PackageBuildStarted = ConsoleReporter_PackageBuildStarted x,
      PackageBuildLog = ConsoleReporter_PackageBuildLog x,
      PackageBuildFinished = ConsoleReporter_PackageBuildFinished x\<rparr>"

text \<open>Each method of \<open>CompositeReporter\<close> is the loop \<open>for _, r := range c.Children\<close>.\<close>

fun CompositeReporter_BuildStarted ::
  "'w Reporter list \<Rightarrow> Package \<Rightarrow> (Package \<times> PackageBuildStatus) list \<Rightarrow> 'w \<Rightarrow> 'w" where
  "CompositeReporter_BuildStarted [] pkg status w = w"
| "CompositeReporter_BuildStarted (r # Children) pkg status w =
     CompositeReporter_BuildStarted Children pkg status (BuildStarted r pkg status w)"

fun CompositeReporter_BuildFinished ::
  "'w Reporter list \<Rightarrow> Package \<Rightarrow> string option \<Rightarrow> 'w \<Rightarrow> 'w" where
  "CompositeReporter_BuildFinished [] pkg err w = w"
| "CompositeReporter_BuildFinished (r # Children) pkg err w =
     CompositeReporter_BuildFinished Children pkg err (BuildFinished r pkg err w)"

fun CompositeReporter_PackageBuildStarted :: "'w Reporter list \<Rightarrow> Package \<Rightarrow> 'w \<Rightarrow> 'w" where
  "CompositeReporter_PackageBuildStarted [] pkg w = w"
| "CompositeReporter_PackageBuildStarted (r # Children) pkg w =
     CompositeReporter_PackageBuildStarted Children pkg (PackageBuildStarted r pkg w)"

fun CompositeReporter_PackageBuildLog ::
  "'w Reporter list \<Rightarrow> Package \<Rightarrow> bool \<Rightarrow> string \<Rightarrow> 'w \<Rightarrow> 'w" where
  "CompositeReporter_PackageBuildLog [] pkg isErr buf w = w"
| "CompositeReporter_PackageBuildLog (r # Children) pkg isErr buf w =
     CompositeReporter_PackageBuildLog Children pkg isErr buf (PackageBuildLog r pkg isErr buf w)"

fun CompositeReporter_PackageBuildFinished ::
  "'w Reporter list \<Rightarrow> Package \<Rightarrow> string option \<Rightarrow> 'w \<Rightarrow> 'w" where
  "CompositeReporter_PackageBuildFinished [] pkg err w = w"
| "CompositeReporter_PackageBuildFinished (r # Children) pkg err w =
     CompositeReporter_PackageBuildFinished Children pkg err (PackageBuildFinished r pkg err w)"

definition CompositeReporter :: "'w Reporter list \<Rightarrow> 'w Reporter" where
  "CompositeReporter Children =
     \<lparr>BuildStarted = CompositeReporter_BuildStarted Children,
      BuildFinished = CompositeReporter_BuildFinished Children,
      PackageBuildStarted = CompositeReporter_PackageBuildStarted Children,
      PackageBuildLog = CompositeReporter_PackageBuildLog Children,
      PackageBuildFinished = CompositeReporter_PackageBuildFinished Children\<rparr>"

subsection \<open>Notions the properties are stated with\<close>

text \<open>A call of the interface with its arguments, and its delivery to a reporter.\<close>

datatype call =
    CallBuildStarted Package "(Package \<times> PackageBuildStatus) list"
  | CallBuildFinished Package "string option"
  | CallPackageBuildStarted Package
  | CallPackageBuildLog Package bool string
  | CallPackageBuildFinished Package "string option"

fun deliver :: "'w Reporter \<Rightarrow> call \<Rightarrow> 'w \<Rightarrow> 'w" where
  "deliver r (CallBuildStarted pkg status) = BuildStarted r pkg status"
| "deliver r (CallBuildFinished pkg err) = BuildFinished r pkg err"
| "deliver r (CallPackageBuildStarted pkg) = PackageBuildStarted r pkg"
| "deliver r (CallPackageBuildLog pkg isErr buf) = PackageBuildLog r pkg isErr buf"
| "deliver r (CallPackageBuildFinished pkg err) = PackageBuildFinished r pkg err"

text \<open>
  A child that only records, in a shared journal, its own number and the call it
  received with the arguments it received.
\<close>

definition recorder :: "nat \<Rightarrow> (nat \<times> call) list Reporter" where
  "recorder i =
     \<lparr>BuildStarted = (\<lambda>pkg status j. j @ [(i, CallBuildStarted pkg status)]),
      BuildFinished = (\<lambda>pkg err j. j @ [(i, CallBuildFinished pkg err)]),
      PackageBuildStarted = (\<lambda>pkg j. j @ [(i, CallPackageBuildStarted pkg)]),
      PackageBuildLog = (\<lambda>pkg isErr buf j. j @ [(i, CallPackageBuildLog pkg isErr buf)]),
      PackageBuildFinished = (\<lambda>pkg err j. j @ [(i, CallPackageBuildFinished pkg err)])\<rparr>"

text \<open>
  The locking discipline: a lookup in the map needs the lock held shared or exclusive,
  an insertion or a removal needs it held exclusive.
\<close>

fun guarded :: "access \<times> lock_mode \<Rightarrow> bool" where
  "guarded (MapLookup k, m) = (m = RLocked \<or> m = WLocked)"
| "guarded (MapInsert k, m) = (m = WLocked)"
| "guarded (MapDelete k, m) = (m = WLocked)"

text \<open>
  The registry is well formed when every sink it points to has been allocated and no two
  names share a sink. \<open>NewConsoleReporter\<close> is well formed and every method keeps it so.
\<close>

definition wf :: "world \<Rightarrow> bool" where
  "wf s = ((\<forall>k a. writer s k = Some a \<longrightarrow> a < nxt s)
         \<and> (\<forall>k k' a. writer s k = Some a \<and> writer s k' = Some a \<longrightarrow> k = k'))"



subsection \<open>Example values\<close>

definition pkgA :: Package where
  "pkgA = \<lparr>FullName = ''a:b'', Version = Inr ''v1''\<rparr>"

definition pkgB :: Package where
  "pkgB = \<lparr>FullName = ''c:d'', Version = Inl ''no version''\<rparr>"

text \<open>A reporter that has seen \<open>pkgA\<close> start and an unterminated piece of log of \<open>pkgB\<close>.\<close>

definition world2 :: world where
  "world2 = ConsoleReporter_PackageBuildLog no_color pkgB False ''par''
              (ConsoleReporter_PackageBuildStarted no_color pkgA NewConsoleReporter)"

section \<open>Properties\<close>

subsection \<open>Auxiliary facts\<close>

lemmas prims = mu_Lock_def mu_Unlock_def mu_RLock_def mu_RUnlock_def writer_lookup_def
  writer_insert_def writer_delete_def new_sink_def sink_Write_def os_Stdout_Write_def log_Debug_def







text \<open>What each method of \<open>ConsoleReporter\<close> does to the registry and to the allocator.\<close>

lemma Finished_writer:
  "writer (ConsoleReporter_PackageBuildFinished x pkg err s) = (writer s)(FullName pkg := None)"
  by (simp add: ConsoleReporter_PackageBuildFinished_def prims Let_def split_def split: option.split)

lemma Finished_nxt:
  "nxt (ConsoleReporter_PackageBuildFinished x pkg err s) =
     (case writer s (FullName pkg) of None \<Rightarrow> Suc (nxt s) | Some a \<Rightarrow> nxt s)"
  by (simp add: ConsoleReporter_PackageBuildFinished_def prims Let_def split_def split: option.split)

lemma Finished_heap:
  "a \<noteq> (case writer s (FullName pkg) of None \<Rightarrow> nxt s | Some b \<Rightarrow> b) \<Longrightarrow>
   heap (ConsoleReporter_PackageBuildFinished x pkg err s) a = heap s a"
  by (cases "writer s (FullName pkg)")
     (simp_all add: ConsoleReporter_PackageBuildFinished_def prims Let_def split_def)

lemma Started_writer:
  "writer (ConsoleReporter_PackageBuildStarted x pkg s) = (writer s)(FullName pkg \<mapsto> nxt s)"
  by (simp add: ConsoleReporter_PackageBuildStarted_def prims Let_def split_def split: option.split)

lemma Started_nxt: "nxt (ConsoleReporter_PackageBuildStarted x pkg s) = Suc (nxt s)"
  by (simp add: ConsoleReporter_PackageBuildStarted_def prims Let_def split_def split: option.split)

lemma Log_writer:
  "writer (ConsoleReporter_PackageBuildLog x pkg isErr buf s) =
     (case writer s (FullName pkg) of None \<Rightarrow> (writer s)(FullName pkg \<mapsto> nxt s) | Some a \<Rightarrow> writer s)"
  by (simp add: ConsoleReporter_PackageBuildLog_def prims Let_def split_def split: option.split)

lemma Log_nxt:
  "nxt (ConsoleReporter_PackageBuildLog x pkg isErr buf s) =
     (case writer s (FullName pkg) of None \<Rightarrow> Suc (nxt s) | Some a \<Rightarrow> nxt s)"
  by (simp add: ConsoleReporter_PackageBuildLog_def prims Let_def split_def split: option.split)

lemma BuildStarted_writer: "writer (ConsoleReporter_BuildStarted x pkg status s) = writer s"
  by (simp add: ConsoleReporter_BuildStarted_def prims)

lemma BuildStarted_nxt: "nxt (ConsoleReporter_BuildStarted x pkg status s) = nxt s"
  by (simp add: ConsoleReporter_BuildStarted_def prims)

lemma BuildFinished_writer: "writer (ConsoleReporter_BuildFinished x pkg err s) = writer s"
  by (simp add: ConsoleReporter_BuildFinished_def prims split: option.split)

lemma BuildFinished_nxt: "nxt (ConsoleReporter_BuildFinished x pkg err s) = nxt s"
  by (simp add: ConsoleReporter_BuildFinished_def prims split: option.split)

lemmas registry_simps = Finished_writer Finished_nxt Started_writer Started_nxt Log_writer Log_nxt
  BuildStarted_writer BuildStarted_nxt BuildFinished_writer BuildFinished_nxt

text \<open>Well-formedness holds initially and is kept by every call.\<close>

lemma wf_NewConsoleReporter: "wf NewConsoleReporter"
  by (simp add: wf_def NewConsoleReporter_def)

lemma wf_deliver: "wf s \<Longrightarrow> wf (deliver (ConsoleReporter x) c s)"
  unfolding wf_def
  by (cases c) (auto simp: ConsoleReporter_def registry_simps split: option.splits if_splits
        dest: less_SucI)

text \<open>The example world, evaluated.\<close>

lemma world2_writer: "writer world2 = [''a:b'' \<mapsto> 0, ''c:d'' \<mapsto> 1]"
  by (simp add: world2_def registry_simps pkgA_def pkgB_def NewConsoleReporter_def)


lemma world2_wf: "wf world2"
  using wf_deliver [of "deliver (ConsoleReporter no_color) (CallPackageBuildStarted pkgA) NewConsoleReporter"
      no_color "CallPackageBuildLog pkgB False ''par''"]
    wf_deliver [OF wf_NewConsoleReporter, of no_color "CallPackageBuildStarted pkgA"]
  by (simp add: world2_def ConsoleReporter_def)

lemma world2_heap1: "heap world2 (Suc 0) = \<lparr>indent = ''[c:d] '', buffer = ''par''\<rparr>"
  by (simp add: world2_def ConsoleReporter_PackageBuildLog_def ConsoleReporter_PackageBuildStarted_def
      prims Let_def split_def pkgA_def pkgB_def NewConsoleReporter_def getRunPrefix_def no_color_def
      PrefixWriter_Write_def NewPrefixWriter_def)

subsection \<open>The end of a unit's build frees its name\<close>



subsection \<open>The error-stream flag\<close>

text \<open>
  Claim C9. \<open>PackageBuildLog\<close> of the console reporter does not look at \<open>isErr\<close>: for every
  unit, buffer and state, the call with the flag set and the call with the flag clear
  end in the same world, that is the same output, the same registry and the same sinks.
\<close>

theorem PackageBuildLog_ignores_isErr:
  "ConsoleReporter_PackageBuildLog x pkg True buf s = ConsoleReporter_PackageBuildLog x pkg False buf s"
  by (simp add: ConsoleReporter_PackageBuildLog_def)

subsection \<open>What PackageBuildFinished does to the registry\<close>

text \<open>
  Claim C10. \<open>PackageBuildFinished\<close> adds nothing to the registry: the registry after the
  call is the registry before it without the unit's name. When the unit had no sink, the
  sink made for the last line is not registered and the registry is as before. The entry
  of every other name is kept, and so is the sink it points to.
\<close>

theorem PackageBuildFinished_registry_frame:
  "writer (ConsoleReporter_PackageBuildFinished x pkg err s) = (writer s)(FullName pkg := None)
   \<and> dom (writer (ConsoleReporter_PackageBuildFinished x pkg err s)) = dom (writer s) - {FullName pkg}
   \<and> (writer s (FullName pkg) = None \<longrightarrow>
        writer (ConsoleReporter_PackageBuildFinished x pkg err s) = writer s)
   \<and> (wf s \<and> k \<noteq> FullName pkg \<and> writer s k = Some a \<longrightarrow>
        writer (ConsoleReporter_PackageBuildFinished x pkg err s) k = Some a
        \<and> heap (ConsoleReporter_PackageBuildFinished x pkg err s) a = heap s a)"
proof -
  have frame: "heap (ConsoleReporter_PackageBuildFinished x pkg err s) a = heap s a"
    if "wf s" "k \<noteq> FullName pkg" "writer s k = Some a"
  proof (rule Finished_heap)
    show "a \<noteq> (case writer s (FullName pkg) of None \<Rightarrow> nxt s | Some b \<Rightarrow> b)"
      using that unfolding wf_def by (auto split: option.splits)
  qed
  show ?thesis
    using frame by (auto simp: Finished_writer)
qed

theorem PackageBuildFinished_registry_frame_witness:
  "(wf world2 \<and> ''c:d'' \<noteq> FullName pkgA \<and> writer world2 ''c:d'' = Some 1
    \<and> writer (ConsoleReporter_PackageBuildFinished no_color pkgA None world2) ''a:b'' = None
    \<and> writer (ConsoleReporter_PackageBuildFinished no_color pkgA None world2) ''c:d'' = Some 1
    \<and> heap (ConsoleReporter_PackageBuildFinished no_color pkgA None world2) 1
        = \<lparr>indent = ''[c:d] '', buffer = ''par''\<rparr>)
   \<and> (writer NewConsoleReporter (FullName pkgA) = None
      \<and> writer (ConsoleReporter_PackageBuildFinished no_color pkgA None NewConsoleReporter) = Map.empty)"
  using PackageBuildFinished_registry_frame [of no_color pkgA None world2 "''c:d''" 1]
    PackageBuildFinished_registry_frame [of no_color pkgA None NewConsoleReporter]
  by (simp add: world2_wf world2_writer world2_heap1 pkgA_def NewConsoleReporter_def)

subsection \<open>The locking discipline\<close>

text \<open>
  \<open>PackageBuildStarted\<close> and \<open>PackageBuildLog\<close> touch the map only under the lock the
  discipline asks for. \<open>PackageBuildFinished\<close> looks the sink up under the shared lock,
  releases it, and deletes the entry with no lock held.
\<close>

lemma Finished_accesses:
  "accesses (ConsoleReporter_PackageBuildFinished x pkg err s) =
     accesses s @ [(MapLookup (FullName pkg), RLocked), (MapDelete (FullName pkg), Unlocked)]"
  by (simp add: ConsoleReporter_PackageBuildFinished_def prims Let_def split_def split: option.split)

lemma Started_accesses:
  "accesses (ConsoleReporter_PackageBuildStarted x pkg s) =
     accesses s @ [(MapInsert (FullName pkg), WLocked)]"
  by (simp add: ConsoleReporter_PackageBuildStarted_def prims Let_def split_def)

lemma Log_accesses:
  "accesses (ConsoleReporter_PackageBuildLog x pkg isErr buf s) =
     accesses s @ (MapLookup (FullName pkg), RLocked) #
       (case writer s (FullName pkg) of
          None \<Rightarrow> [(MapInsert (FullName pkg), WLocked)]
        | Some a \<Rightarrow> [])"
  by (simp add: ConsoleReporter_PackageBuildLog_def prims Let_def split_def split: option.split)

lemma Started_guarded:
  "list_all guarded (accesses (ConsoleReporter_PackageBuildStarted x pkg s)) = list_all guarded (accesses s)"
  by (simp add: Started_accesses)

lemma Log_guarded:
  "list_all guarded (accesses (ConsoleReporter_PackageBuildLog x pkg isErr buf s)) = list_all guarded (accesses s)"
  by (simp add: Log_accesses split: option.split)

lemma Finished_not_guarded:
  "\<not> list_all guarded (accesses (ConsoleReporter_PackageBuildFinished x pkg err s))"
  by (simp add: Finished_accesses)

lemma world2_accesses:
  "accesses world2 = [(MapInsert ''a:b'', WLocked), (MapLookup ''c:d'', RLocked), (MapInsert ''c:d'', WLocked)]"
  by (simp add: world2_def Log_accesses Started_accesses Started_writer pkgA_def pkgB_def
      NewConsoleReporter_def)

text \<open>
  Claim C1. Every change of the registry is to be made under the exclusive lock, the
  removal by \<open>PackageBuildFinished\<close> in particular. The code does not do so: in a
  reporter whose accesses so far were all guarded, \<open>PackageBuildFinished(pkgA, nil)\<close>
  looks \<open>a:b\<close> up under the shared lock and then deletes \<open>a:b\<close> while holding no lock.
\<close>

theorem PackageBuildFinished_deletes_unlocked:
  "list_all guarded (accesses world2)
   \<and> accesses (ConsoleReporter_PackageBuildFinished no_color pkgA None world2)
       = accesses world2 @ [(MapLookup ''a:b'', RLocked), (MapDelete ''a:b'', Unlocked)]
   \<and> \<not> guarded (MapDelete ''a:b'', Unlocked)
   \<and> \<not> list_all guarded (accesses (ConsoleReporter_PackageBuildFinished no_color pkgA None world2))"
  by (simp add: Finished_accesses world2_accesses pkgA_def)

subsection \<open>The table of BuildStarted\<close>

lemma status_line_NL: "status_line x e \<noteq> [] \<and> last (status_line x e) = NL"
  by (cases e) (simp add: status_line_def Let_def)

text \<open>
  Claim C3. For every status map, whatever the order in which the loop visits it,
  \<open>BuildStarted\<close> renders one line per entry (as many lines as entries, and as a
  multiset the lines of the entries, each ending in a newline), tagged \<open>cached\<close> for \<open>PackageBuilt\<close> and \<open>build\<close>
  otherwise; the lines are in ascending bytewise lexicographic order of their text, so
  two visiting orders of the same map give the same lines; the sorted lines, joined and
  followed by a newline, are what is written to the tabwriter in one piece.
\<close>

theorem BuildStarted_lines_sorted:
  "length (BuildStarted_lines x status) = length status
   \<and> mset (BuildStarted_lines x status) = image_mset (status_line x) (mset status)
   \<and> sorted (BuildStarted_lines x status)
   \<and> list_all (\<lambda>l. l \<noteq> [] \<and> last l = NL) (BuildStarted_lines x status)
   \<and> (mset status' = mset status \<longrightarrow> BuildStarted_lines x status' = BuildStarted_lines x status)
   \<and> stdout (ConsoleReporter_BuildStarted x root status s)
       = stdout s @ tabwriter x (concat (BuildStarted_lines x status) @ [NL])
   \<and> status_line x (p, PackageBuilt)
       = Green x (icon_cached @ [TAB] @ ''cached'') @ [TAB] @ FullName p @ [TAB]
         @ Gray x (''(version '' @ version_or_unknown p @ '')'') @ [NL]
   \<and> status_line x (p, PackagePending)
       = Yellow x (icon_build @ [TAB] @ ''build'') @ [TAB] @ FullName p @ [TAB]
         @ Gray x (''(version '' @ version_or_unknown p @ '')'') @ [NL]"
proof -
  have perm: "BuildStarted_lines x status' = BuildStarted_lines x status" if "mset status' = mset status"
  proof -
    have "mset (map (status_line x) status') = mset (map (status_line x) status)"
      using that by (metis mset_map)
    then show ?thesis
      unfolding BuildStarted_lines_def sort_Slice_def
      by (metis properties_for_sort sorted_sort mset_sort)
  qed
  have terminated: "list_all (\<lambda>l. l \<noteq> [] \<and> last l = NL) (BuildStarted_lines x status)"
    using status_line_NL [of x]
    by (auto simp: BuildStarted_lines_def sort_Slice_def list_all_iff)
  show ?thesis
    using perm terminated
    by (simp add: BuildStarted_lines_def sort_Slice_def ConsoleReporter_BuildStarted_def
        os_Stdout_Write_def status_line_def Let_def)
qed

theorem BuildStarted_lines_sorted_witness:
  "mset [(pkgB, PackagePending), (pkgA, PackageBuilt)] = mset [(pkgA, PackageBuilt), (pkgB, PackagePending)]
   \<and> BuildStarted_lines no_color [(pkgB, PackagePending), (pkgA, PackageBuilt)]
       = BuildStarted_lines no_color [(pkgA, PackageBuilt), (pkgB, PackagePending)]
   \<and> BuildStarted_lines no_color [(pkgA, PackageBuilt), (pkgB, PackagePending)]
       = [icon_cached @ [TAB] @ ''cached'' @ [TAB] @ ''a:b'' @ [TAB] @ ''(version v1)'' @ [NL],
          icon_build @ [TAB] @ ''build'' @ [TAB] @ ''c:d'' @ [TAB] @ ''(version unknown)'' @ [NL]]"
  using BuildStarted_lines_sorted [of no_color "[(pkgA, PackageBuilt), (pkgB, PackagePending)]"
      "[(pkgB, PackagePending), (pkgA, PackageBuilt)]"]
  by (simp add: BuildStarted_lines_def sort_Slice_def status_line_def no_color_def pkgA_def pkgB_def
      version_or_unknown_def icon_cached_def icon_build_def)

subsection \<open>CompositeReporter\<close>

lemma Composite_BuildStarted_fold:
  "CompositeReporter_BuildStarted Children pkg status w = fold (\<lambda>r. BuildStarted r pkg status) Children w"
  by (induction Children arbitrary: w) simp_all

lemma Composite_BuildFinished_fold:
  "CompositeReporter_BuildFinished Children pkg err w = fold (\<lambda>r. BuildFinished r pkg err) Children w"
  by (induction Children arbitrary: w) simp_all

lemma Composite_PackageBuildStarted_fold:
  "CompositeReporter_PackageBuildStarted Children pkg w = fold (\<lambda>r. PackageBuildStarted r pkg) Children w"
  by (induction Children arbitrary: w) simp_all

lemma Composite_PackageBuildLog_fold:
  "CompositeReporter_PackageBuildLog Children pkg isErr buf w =
     fold (\<lambda>r. PackageBuildLog r pkg isErr buf) Children w"
  by (induction Children arbitrary: w) simp_all

lemma Composite_PackageBuildFinished_fold:
  "CompositeReporter_PackageBuildFinished Children pkg err w =
     fold (\<lambda>r. PackageBuildFinished r pkg err) Children w"
  by (induction Children arbitrary: w) simp_all

lemma deliver_Composite: "deliver (CompositeReporter Children) c w = fold (\<lambda>r. deliver r c) Children w"
  by (cases c)
     (simp_all add: CompositeReporter_def Composite_BuildStarted_fold Composite_BuildFinished_fold
        Composite_PackageBuildStarted_fold Composite_PackageBuildLog_fold
        Composite_PackageBuildFinished_fold)

lemma deliver_recorder: "deliver (recorder i) c j = j @ [(i, c)]"
  by (cases c) (simp_all add: recorder_def)

lemma fold_recorders: "fold (\<lambda>r. deliver r c) (map recorder ids) j = j @ map (\<lambda>i. (i, c)) ids"
  by (induction ids arbitrary: j) (simp_all add: deliver_recorder)

text \<open>
  Claim C6. For each of the five calls, \<open>CompositeReporter\<close> with the children
  \<open>[A, B, ..., Z]\<close> is the call on \<open>A\<close>, then on \<open>B\<close>, ..., then on \<open>Z\<close>, with the same
  arguments, and nothing else. With children that record what they receive, the journal
  after the call is the journal before it followed by one entry per child, in list
  order, each with the call as it was made.
\<close>

theorem CompositeReporter_forwards_in_order:
  "deliver (CompositeReporter Children) c w = fold (\<lambda>r. deliver r c) Children w
   \<and> deliver (CompositeReporter (map recorder ids)) c j = j @ map (\<lambda>i. (i, c)) ids"
  by (simp add: deliver_Composite fold_recorders)

subsection \<open>A version that cannot be determined\<close>

lemma status_line_unknown:
  "Version pkg = Inl e \<Longrightarrow> status_line x (pkg, st) = status_line x (pkg\<lparr>Version := Inr ''unknown''\<rparr>, st)"
  by (simp add: status_line_def version_or_unknown_def Let_def)

text \<open>
  Claim C7. When \<open>Version()\<close> fails for a unit, its line in the table of \<open>BuildStarted\<close>
  and the line \<open>build started\<close> of \<open>PackageBuildStarted\<close> show \<open>unknown\<close> where the version
  would be. \<open>BuildStarted\<close> writes, through the tabwriter, the sorted lines of the status
  map, among them the unit's line with \<open>(version unknown)\<close>; \<open>PackageBuildStarted\<close> writes
  \<open>build started (version unknown)\<close> through the unit's sink. Both calls do exactly what
  they do for the same unit with the version \<open>unknown\<close>. The calls return a world; there
  is no error for the caller to see.
\<close>

theorem Version_failure_renders_unknown:
  assumes "Version pkg = Inl e"
  shows "status_line x (pkg, PackageBuilt)
       = Green x (icon_cached @ [TAB] @ ''cached'') @ [TAB] @ FullName pkg @ [TAB]
         @ Gray x ''(version unknown)'' @ [NL]
   \<and> status_line x (pkg, PackagePending)
       = Yellow x (icon_build @ [TAB] @ ''build'') @ [TAB] @ FullName pkg @ [TAB]
         @ Gray x ''(version unknown)'' @ [NL]
   \<and> stdout (ConsoleReporter_BuildStarted x root (before @ (pkg, st) # after) s)
       = stdout s @ tabwriter x
           (concat (sort (map (status_line x) before
              @ [(if st = PackageBuilt
                  then Green x (icon_cached @ [TAB] @ ''cached'')
                  else Yellow x (icon_build @ [TAB] @ ''build''))
                 @ [TAB] @ FullName pkg @ [TAB] @ Gray x ''(version unknown)'' @ [NL]]
              @ map (status_line x) after)) @ [NL])
   \<and> (if st = PackageBuilt
       then Green x (icon_cached @ [TAB] @ ''cached'')
       else Yellow x (icon_build @ [TAB] @ ''build''))
      @ [TAB] @ FullName pkg @ [TAB] @ Gray x ''(version unknown)'' @ [NL]
        \<in> set (BuildStarted_lines x (before @ (pkg, st) # after))
   \<and> ConsoleReporter_BuildStarted x root (before @ (pkg\<lparr>Version := Inr ''unknown''\<rparr>, st) # after) s
       = ConsoleReporter_BuildStarted x root (before @ (pkg, st) # after) s
   \<and> stdout (ConsoleReporter_PackageBuildStarted x pkg s)
       = stdout s @ snd (PrefixWriter_Write (NewPrefixWriter (getRunPrefix x pkg))
           (ReplaceTag x (''<fg=yellow>build started</> <gray>(version unknown)</>'' @ [NL])))
   \<and> ConsoleReporter_PackageBuildStarted x (pkg\<lparr>Version := Inr ''unknown''\<rparr>) s
       = ConsoleReporter_PackageBuildStarted x pkg s"
proof -
  let ?line = "(if st = PackageBuilt
       then Green x (icon_cached @ [TAB] @ ''cached'')
       else Yellow x (icon_build @ [TAB] @ ''build''))
      @ [TAB] @ FullName pkg @ [TAB] @ Gray x ''(version unknown)'' @ [NL]"
  have v: "version_or_unknown pkg = ''unknown''"
    using assms by (simp add: version_or_unknown_def)
  have v': "version_or_unknown (pkg\<lparr>Version := Inr ''unknown''\<rparr>) = ''unknown''"
    by (simp add: version_or_unknown_def)
  have line: "status_line x (pkg, st) = ?line"
    by (simp add: status_line_def Let_def v)
  have lines: "status_line x (pkg, st') = status_line x (pkg\<lparr>Version := Inr ''unknown''\<rparr>, st')" for st'
    using assms by (rule status_line_unknown)
  have written: "stdout (ConsoleReporter_BuildStarted x root (before @ (pkg, st) # after) s)
       = stdout s @ tabwriter x
           (concat (sort (map (status_line x) before @ [?line] @ map (status_line x) after)) @ [NL])"
    unfolding ConsoleReporter_BuildStarted_def BuildStarted_lines_def sort_Slice_def os_Stdout_Write_def
    using line by simp
  have member: "?line \<in> set (BuildStarted_lines x (before @ (pkg, st) # after))"
    unfolding BuildStarted_lines_def sort_Slice_def using line by simp
  have table: "ConsoleReporter_BuildStarted x root (before @ (pkg\<lparr>Version := Inr ''unknown''\<rparr>, st) # after) s
       = ConsoleReporter_BuildStarted x root (before @ (pkg, st) # after) s"
    by (simp add: ConsoleReporter_BuildStarted_def BuildStarted_lines_def lines)
  have out: "stdout (ConsoleReporter_PackageBuildStarted x pkg s)
       = stdout s @ snd (PrefixWriter_Write (NewPrefixWriter (getRunPrefix x pkg))
           (ReplaceTag x (''<fg=yellow>build started</> <gray>(version unknown)</>'' @ [NL])))"
    by (simp add: ConsoleReporter_PackageBuildStarted_def prims Let_def split_def v)
  have same: "ConsoleReporter_PackageBuildStarted x (pkg\<lparr>Version := Inr ''unknown''\<rparr>) s
       = ConsoleReporter_PackageBuildStarted x pkg s"
    by (simp add: ConsoleReporter_PackageBuildStarted_def Let_def v v' getRunPrefix_def)
  have built: "status_line x (pkg, PackageBuilt)
       = Green x (icon_cached @ [TAB] @ ''cached'') @ [TAB] @ FullName pkg @ [TAB]
         @ Gray x ''(version unknown)'' @ [NL]"
    by (simp add: status_line_def Let_def v)
  have pending: "status_line x (pkg, PackagePending)
       = Yellow x (icon_build @ [TAB] @ ''build'') @ [TAB] @ FullName pkg @ [TAB]
         @ Gray x ''(version unknown)'' @ [NL]"
    by (simp add: status_line_def Let_def v)
  from built pending written member table out same show ?thesis
    by (intro conjI)
qed

theorem Version_failure_renders_unknown_witness:
  "Version pkgB = Inl ''no version''
   \<and> status_line no_color (pkgB, PackagePending)
       = icon_build @ [TAB] @ ''build'' @ [TAB] @ ''c:d'' @ [TAB] @ ''(version unknown)'' @ [NL]
   \<and> stdout (ConsoleReporter_BuildStarted no_color pkgA [(pkgB, PackagePending), (pkgA, PackageBuilt)]
        NewConsoleReporter)
       = icon_cached @ [TAB] @ ''cached'' @ [TAB] @ ''a:b'' @ [TAB] @ ''(version v1)'' @ [NL]
         @ icon_build @ [TAB] @ ''build'' @ [TAB] @ ''c:d'' @ [TAB] @ ''(version unknown)'' @ [NL]
         @ [NL]
   \<and> stdout (ConsoleReporter_PackageBuildStarted no_color pkgB NewConsoleReporter)
       = ''[c:d] <fg=yellow>build started</> <gray>(version unknown)</>'' @ [NL]"
proof -
  have failing: "Version pkgB = Inl ''no version''"
    by (simp add: pkgB_def)
  show ?thesis
    using failing
      Version_failure_renders_unknown [OF failing, where x = no_color and s = NewConsoleReporter
        and root = pkgA and before = "[]" and after = "[(pkgA, PackageBuilt)]" and st = PackagePending]
    by (simp add: pkgA_def pkgB_def no_color_def NewConsoleReporter_def getRunPrefix_def
        PrefixWriter_Write_def NewPrefixWriter_def status_line_def version_or_unknown_def
        icon_cached_def icon_build_def)
qed

subsection \<open>The summary lines\<close>

lemma BuildFinished_stdout:
  "stdout (ConsoleReporter_BuildFinished x pkg err s) =
     stdout s @ (case err of
        None \<Rightarrow> ReplaceTag x ([NL] @ ''<green>build succeded</>'') @ [NL]
      | Some e \<Rightarrow> ReplaceTag x (''<red>build failed</>'' @ [NL] @ ''<white>Reason:</> '' @ e @ [NL]))"
  by (simp add: ConsoleReporter_BuildFinished_def os_Stdout_Write_def split: option.split)

lemma PackageBuildFinished_stdout:
  "stdout (ConsoleReporter_PackageBuildFinished x pkg err s) =
     stdout s @ snd (PrefixWriter_Write
       (case writer s (FullName pkg) of None \<Rightarrow> NewPrefixWriter (getRunPrefix x pkg) | Some a \<Rightarrow> heap s a)
       (case err of
          None \<Rightarrow> ReplaceTag x (''<green>package build succeded</>'' @ [NL])
        | Some e \<Rightarrow> ReplaceTag x (''<red>package build failed</>'' @ [NL] @ ''<white>Reason:</> '' @ e @ [NL])))"
  by (simp add: ConsoleReporter_PackageBuildFinished_def prims Let_def split_def split: option.split)

text \<open>
  Claim C8. The summary is to read \<open>build succeeded\<close> and \<open>package build succeeded\<close> on
  success. The code writes \<open>build succeded\<close> (after an empty line) and
  \<open>package build succeded\<close>: the word is misspelt in both messages. On failure the
  texts are \<open>build failed\<close> and \<open>package build failed\<close>, each followed by
  \<open>Reason: <error>\<close> on the next line, as claimed.
\<close>

theorem Finished_summary_text:
  "stdout (ConsoleReporter_BuildFinished no_color pkgA None NewConsoleReporter)
     = [NL] @ ''<green>build succeded</>'' @ [NL]
   \<and> stdout (ConsoleReporter_PackageBuildFinished no_color pkgA None NewConsoleReporter)
     = ''[a:b] <green>package build succeded</>'' @ [NL]
   \<and> stdout (ConsoleReporter_BuildFinished no_color pkgA (Some ''boom'') NewConsoleReporter)
     = ''<red>build failed</>'' @ [NL] @ ''<white>Reason:</> boom'' @ [NL]
   \<and> stdout (ConsoleReporter_PackageBuildFinished no_color pkgA (Some ''boom'') NewConsoleReporter)
     = ''[a:b] <red>package build failed</>'' @ [NL] @ ''[a:b] <white>Reason:</> boom'' @ [NL]"
  by (simp add: BuildFinished_stdout PackageBuildFinished_stdout NewConsoleReporter_def no_color_def
      pkgA_def getRunPrefix_def PrefixWriter_Write_def NewPrefixWriter_def)

subsection \<open>Log output that arrives before the start of the build\<close>











end
